theory Spec2Isabelle
  imports Main
begin

section \<open>Python values, exceptions and the observable world\<close>

text \<open>
  The bot of \<^verbatim>\<open>homework.py\<close> handles values decoded from JSON. They are modelled by
  \<open>pyval\<close>; a \<^verbatim>\<open>dict\<close> is an association list read with \<open>map_of\<close>, a Python
  \<^verbatim>\<open>str\<close> is the list of the bytes of its UTF-8 encoding (concatenation and equality
  of strings are concatenation and equality of their encodings). JSON numbers with a
  fraction do not occur in the documented API and are left out.
\<close>

datatype pyval =
    PNone
  | PBool bool
  | PInt int
  | PStr string
  | PList "pyval list"
  | PDict "(string \<times> pyval) list"

text \<open>
  Modelled from the spec: the module \<^verbatim>\<open>exceptions\<close> of the program, which declares
  \<^verbatim>\<open>MissTokenError\<close>, \<^verbatim>\<open>VerdictErrors\<close> and \<^verbatim>\<open>ResponseError\<close>, is not among the sources.
  The error taxonomy of the specification lists the three as kinds of their own, apart
  from one another, from the transport errors and from \<^verbatim>\<open>TypeError\<close> and \<^verbatim>\<open>KeyError\<close>:
  they are taken as classes that derive from \<^verbatim>\<open>Exception\<close> and from no other class
  named here. The other classes belong to Python, \<^verbatim>\<open>json\<close>, \<^verbatim>\<open>requests\<close> and
  \<^verbatim>\<open>telegram\<close>. A subclass that the program never names is identified with the nearest
  class it names: \<open>Timeout\<close> stands for every subclass of
  \<^verbatim>\<open>requests.exceptions.Timeout\<close>, \<open>RequestException\<close> for the request errors that are
  none of the three named ones, \<open>TelegramError\<close> for every error of \<^verbatim>\<open>telegram.error\<close>,
  \<open>OtherError\<close> for every other \<^verbatim>\<open>Exception\<close>.
\<close>

datatype exn_class =
    TypeError | KeyError | AttributeError | JSONDecodeError
  | MissTokenError | VerdictErrors | ResponseError
  | TelegramError
  | HTTPError | Timeout | ConnectionError | RequestException
  | OtherError

text \<open>
  An exception has its class, the text it was built with, and the exception that was
  being handled when it was raised (\<^verbatim>\<open>__context__\<close>).
\<close>

datatype exn = Exn (cls: exn_class) (args: string) (ctx: "exn option")

text \<open>Errors raised by the interpreter itself rather than by a \<^verbatim>\<open>raise\<close> of the program.\<close>

datatype fault =
    NotCallable exn_class
  | MissingArguments exn_class
  | Undecodable
  | NoAttribute pyval string
  | BadSubscript pyval
  | Unhashable pyval

text \<open>
  Two things are parameters of the model: \<open>repr\<close>, Python's \<^verbatim>\<open>repr\<close> of a value (which
  escapes strings depending on the Unicode database), and \<open>fault_text\<close>, the wording of
  the interpreter's own error messages (which changes between Python versions). No
  result below depends on what they return.
\<close>

record python =
  repr :: "pyval \<Rightarrow> string"
  fault_text :: "fault \<Rightarrow> string"

definition py_str :: "python \<Rightarrow> pyval \<Rightarrow> string" where
  \<comment> \<open>\<^verbatim>\<open>str(v)\<close>, as an f-string field \<^verbatim>\<open>{v}\<close> renders it\<close>
  "py_str py v = (case v of PStr s \<Rightarrow> s | _ \<Rightarrow> repr py v)"

definition exn_str :: "python \<Rightarrow> exn \<Rightarrow> string" where
  \<comment> \<open>\<^verbatim>\<open>str(error)\<close>: a \<^verbatim>\<open>KeyError\<close> shows the \<^verbatim>\<open>repr\<close> of its argument\<close>
  "exn_str py e = (if cls e = KeyError then repr py (PStr (args e)) else args e)"

definition interpreter_error :: "python \<Rightarrow> exn_class \<Rightarrow> fault \<Rightarrow> exn option \<Rightarrow> exn" where
  "interpreter_error py c f during = Exn c (fault_text py f) during"

definition not_callable :: "python \<Rightarrow> exn \<Rightarrow> exn" where
  \<comment> \<open>what \<^verbatim>\<open>raise error(...)\<close> raises when \<^verbatim>\<open>error\<close> is an exception instance: instances
     of the exception classes are not callable, so the call itself fails\<close>
  "not_callable py error = interpreter_error py TypeError (NotCallable (cls error)) (Some error)"

definition truthy :: "string option \<Rightarrow> bool" where
  \<comment> \<open>truth value of what \<^verbatim>\<open>os.getenv\<close> returns: \<^verbatim>\<open>None\<close> and \<^verbatim>\<open>''\<close> are false\<close>
  "truthy x = (case x of None \<Rightarrow> False | Some s \<Rightarrow> s \<noteq> [])"

datatype level = DEBUG | ERROR | CRITICAL

text \<open>
  What the program does to its surroundings: the records handed to \<^verbatim>\<open>logging\<close>, the
  texts handed to \<^verbatim>\<open>bot.send_message\<close> (every attempt, delivered or not), the
  \<^verbatim>\<open>from_date\<close> of every GET request, and the arguments of \<^verbatim>\<open>time.sleep\<close>; each in
  the order of the calls.
\<close>

record world =
  log :: "(level \<times> string) list"
  sent :: "string list"
  fetched :: "int list"
  slept :: "int list"

definition logging :: "level \<Rightarrow> string \<Rightarrow> world \<Rightarrow> world" where
  "logging l m w = w\<lparr>log := log w @ [(l, m)]\<rparr>"

text \<open>
  The surroundings answer deterministically. A bot maps the texts of the earlier
  attempts and the text of this one to the exception \<^verbatim>\<open>bot.send_message\<close> raises, if
  any. An HTTP exchange maps the \<^verbatim>\<open>from_date\<close> of the request to what
  \<^verbatim>\<open>requests.get\<close> does: it raises, or it returns a response with a status code and a
  body, where \<open>None\<close> is a body that \<^verbatim>\<open>response.json()\<close> cannot decode.
\<close>

type_synonym bot = "string list \<Rightarrow> string \<Rightarrow> exn option"

datatype http = Raises exn | Response int "pyval option"

type_synonym exchange = "int \<Rightarrow> http"

text \<open>The three values the module reads with \<^verbatim>\<open>os.getenv\<close> when it is loaded.\<close>

record env =
  PRACTICUM_TOKEN :: "string option"
  TELEGRAM_TOKEN :: "string option"
  TELEGRAM_CHAT_ID :: "string option"

section \<open>Constants of the module\<close>

text \<open>
  The texts of the source are Russian. Each constant below is the UTF-8 encoding of the
  literal of the source, bytes above 127 written as \<open>CHR 0x..\<close>:
  \<open>verdict_approved\<close>, \<open>verdict_reviewing\<close> and \<open>verdict_rejected\<close> are the three values of
  \<^verbatim>\<open>HOMEWORK_VERDICTS\<close>; the \<open>msg_\<close> constants are the fixed parts of the f-strings, in
  the order of the source: \<^verbatim>\<open>check_tokens\<close> (line 39), \<^verbatim>\<open>send_message\<close> (lines 52 and
  54), \<^verbatim>\<open>get_api_answer\<close> (line 75, with \<^verbatim>\<open>ENDPOINT\<close> filled in), \<^verbatim>\<open>check_response\<close>
  (lines 106, 108 with \<^verbatim>\<open>{KeyError}\<close> rendered as the class, and 110), \<^verbatim>\<open>parse_status\<close>
  (lines 126, 129 up to and including the opening quotation mark, and 130-131) and
  \<^verbatim>\<open>main\<close> (lines 142, 157 and 162).
\<close>

definition verdict_approved :: string where
  "verdict_approved =
     [CHR 0xD0, CHR 0xA0, CHR 0xD0, CHR 0xB0, CHR 0xD0, CHR 0xB1, CHR 0xD0, CHR 0xBE,
     CHR 0xD1, CHR 0x82, CHR 0xD0, CHR 0xB0] @ '' '' @ [CHR 0xD0, CHR 0xBF, CHR 0xD1,
     CHR 0x80, CHR 0xD0, CHR 0xBE, CHR 0xD0, CHR 0xB2, CHR 0xD0, CHR 0xB5, CHR 0xD1,
     CHR 0x80, CHR 0xD0, CHR 0xB5, CHR 0xD0, CHR 0xBD, CHR 0xD0, CHR 0xB0] @ '': '' @
     [CHR 0xD1, CHR 0x80, CHR 0xD0, CHR 0xB5, CHR 0xD0, CHR 0xB2, CHR 0xD1, CHR 0x8C,
     CHR 0xD1, CHR 0x8E, CHR 0xD0, CHR 0xB5, CHR 0xD1, CHR 0x80, CHR 0xD1, CHR 0x83] @
     '' '' @ [CHR 0xD0, CHR 0xB2, CHR 0xD1, CHR 0x81, CHR 0xD1, CHR 0x91] @ '' '' @
     [CHR 0xD0, CHR 0xBF, CHR 0xD0, CHR 0xBE, CHR 0xD0, CHR 0xBD, CHR 0xD1, CHR 0x80,
     CHR 0xD0, CHR 0xB0, CHR 0xD0, CHR 0xB2, CHR 0xD0, CHR 0xB8, CHR 0xD0, CHR 0xBB,
     CHR 0xD0, CHR 0xBE, CHR 0xD1, CHR 0x81, CHR 0xD1, CHR 0x8C] @ ''. '' @ [CHR 0xD0,
     CHR 0xA3, CHR 0xD1, CHR 0x80, CHR 0xD0, CHR 0xB0] @ ''!''"

definition verdict_reviewing :: string where
  "verdict_reviewing =
     [CHR 0xD0, CHR 0xA0, CHR 0xD0, CHR 0xB0, CHR 0xD0, CHR 0xB1, CHR 0xD0, CHR 0xBE,
     CHR 0xD1, CHR 0x82, CHR 0xD0, CHR 0xB0] @ '' '' @ [CHR 0xD0, CHR 0xB2, CHR 0xD0,
     CHR 0xB7, CHR 0xD1, CHR 0x8F, CHR 0xD1, CHR 0x82, CHR 0xD0, CHR 0xB0] @ '' '' @
     [CHR 0xD0, CHR 0xBD, CHR 0xD0, CHR 0xB0] @ '' '' @ [CHR 0xD0, CHR 0xBF, CHR 0xD1,
     CHR 0x80, CHR 0xD0, CHR 0xBE, CHR 0xD0, CHR 0xB2, CHR 0xD0, CHR 0xB5, CHR 0xD1,
     CHR 0x80, CHR 0xD0, CHR 0xBA, CHR 0xD1, CHR 0x83] @ '' '' @ [CHR 0xD1, CHR 0x80,
     CHR 0xD0, CHR 0xB5, CHR 0xD0, CHR 0xB2, CHR 0xD1, CHR 0x8C, CHR 0xD1, CHR 0x8E,
     CHR 0xD0, CHR 0xB5, CHR 0xD1, CHR 0x80, CHR 0xD0, CHR 0xBE, CHR 0xD0, CHR 0xBC] @
     ''.''"

definition verdict_rejected :: string where
  "verdict_rejected =
     [CHR 0xD0, CHR 0xA0, CHR 0xD0, CHR 0xB0, CHR 0xD0, CHR 0xB1, CHR 0xD0, CHR 0xBE,
     CHR 0xD1, CHR 0x82, CHR 0xD0, CHR 0xB0] @ '' '' @ [CHR 0xD0, CHR 0xBF, CHR 0xD1,
     CHR 0x80, CHR 0xD0, CHR 0xBE, CHR 0xD0, CHR 0xB2, CHR 0xD0, CHR 0xB5, CHR 0xD1,
     CHR 0x80, CHR 0xD0, CHR 0xB5, CHR 0xD0, CHR 0xBD, CHR 0xD0, CHR 0xB0] @ '': '' @
     [CHR 0xD1, CHR 0x83] @ '' '' @ [CHR 0xD1, CHR 0x80, CHR 0xD0, CHR 0xB5, CHR 0xD0,
     CHR 0xB2, CHR 0xD1, CHR 0x8C, CHR 0xD1, CHR 0x8E, CHR 0xD0, CHR 0xB5, CHR 0xD1,
     CHR 0x80, CHR 0xD0, CHR 0xB0] @ '' '' @ [CHR 0xD0, CHR 0xB5, CHR 0xD1, CHR 0x81,
     CHR 0xD1, CHR 0x82, CHR 0xD1, CHR 0x8C] @ '' '' @ [CHR 0xD0, CHR 0xB7, CHR 0xD0,
     CHR 0xB0, CHR 0xD0, CHR 0xBC, CHR 0xD0, CHR 0xB5, CHR 0xD1, CHR 0x87, CHR 0xD0,
     CHR 0xB0, CHR 0xD0, CHR 0xBD, CHR 0xD0, CHR 0xB8, CHR 0xD1, CHR 0x8F] @ ''.''"

definition msg_missing_tokens :: string where
  "msg_missing_tokens =
     [CHR 0xD0, CHR 0x9E, CHR 0xD1, CHR 0x82, CHR 0xD1, CHR 0x81, CHR 0xD1, CHR 0x83,
     CHR 0xD1, CHR 0x82, CHR 0xD1, CHR 0x81, CHR 0xD1, CHR 0x82, CHR 0xD0, CHR 0xB2,
     CHR 0xD1, CHR 0x83, CHR 0xD1, CHR 0x8E, CHR 0xD1, CHR 0x82] @ '' '' @ [CHR 0xD1,
     CHR 0x82, CHR 0xD0, CHR 0xBE, CHR 0xD0, CHR 0xBA, CHR 0xD0, CHR 0xB5, CHR 0xD0,
     CHR 0xBD, CHR 0xD1, CHR 0x8B] @ '': ''"

definition msg_sent_ok :: string where
  "msg_sent_ok =
     [CHR 0xD0, CHR 0xA1, CHR 0xD0, CHR 0xBE, CHR 0xD0, CHR 0xBE, CHR 0xD0, CHR 0xB1,
     CHR 0xD1, CHR 0x89, CHR 0xD0, CHR 0xB5, CHR 0xD0, CHR 0xBD, CHR 0xD0, CHR 0xB8,
     CHR 0xD0, CHR 0xB5] @ '' '' @ [CHR 0xD0, CHR 0xBE, CHR 0xD1, CHR 0x82, CHR 0xD0,
     CHR 0xBF, CHR 0xD1, CHR 0x80, CHR 0xD0, CHR 0xB0, CHR 0xD0, CHR 0xB2, CHR 0xD0,
     CHR 0xBB, CHR 0xD0, CHR 0xB5, CHR 0xD0, CHR 0xBD, CHR 0xD0, CHR 0xBE] @ '' '' @
     [CHR 0xD1, CHR 0x83, CHR 0xD1, CHR 0x81, CHR 0xD0, CHR 0xBF, CHR 0xD0, CHR 0xB5,
     CHR 0xD1, CHR 0x88, CHR 0xD0, CHR 0xBD, CHR 0xD0, CHR 0xBE]"

definition msg_send_failed :: string where
  "msg_send_failed =
     [CHR 0xD0, CHR 0x9E, CHR 0xD1, CHR 0x88, CHR 0xD0, CHR 0xB8, CHR 0xD0, CHR 0xB1,
     CHR 0xD0, CHR 0xBA, CHR 0xD0, CHR 0xB0] @ '' '' @ [CHR 0xD0, CHR 0xBF, CHR 0xD1,
     CHR 0x80, CHR 0xD0, CHR 0xB8] @ '' '' @ [CHR 0xD0, CHR 0xBE, CHR 0xD1, CHR 0x82,
     CHR 0xD0, CHR 0xBF, CHR 0xD1, CHR 0x80, CHR 0xD0, CHR 0xB0, CHR 0xD0, CHR 0xB2,
     CHR 0xD0, CHR 0xBA, CHR 0xD0, CHR 0xB8] @ '' '' @ [CHR 0xD1, CHR 0x81, CHR 0xD0,
     CHR 0xBE, CHR 0xD0, CHR 0xBE, CHR 0xD0, CHR 0xB1, CHR 0xD1, CHR 0x89, CHR 0xD0,
     CHR 0xB5, CHR 0xD0, CHR 0xBD, CHR 0xD0, CHR 0xB8, CHR 0xD1, CHR 0x8F] @ '': ''"

definition msg_bad_answer :: string where
  "msg_bad_answer =
     [CHR 0xD0, CHR 0x9D, CHR 0xD0, CHR 0xB5, CHR 0xD0, CHR 0xB2, CHR 0xD0, CHR 0xB5,
     CHR 0xD1, CHR 0x80, CHR 0xD0, CHR 0xBD, CHR 0xD1, CHR 0x8B, CHR 0xD0, CHR 0xB9] @
     '' '' @ [CHR 0xD0, CHR 0xBE, CHR 0xD1, CHR 0x82, CHR 0xD0, CHR 0xB2, CHR 0xD0,
     CHR 0xB5, CHR 0xD1, CHR 0x82] @
     '' https://practicum.yandex.ru/api/user_api/homework_statuses/: ''"

definition msg_not_dict :: string where
  "msg_not_dict =
     [CHR 0xD0, CHR 0x9F, CHR 0xD0, CHR 0xBE, CHR 0xD0, CHR 0xBB, CHR 0xD1, CHR 0x83,
     CHR 0xD1, CHR 0x87, CHR 0xD0, CHR 0xB5, CHR 0xD0, CHR 0xBD, CHR 0xD0, CHR 0xBD,
     CHR 0xD1, CHR 0x8B, CHR 0xD0, CHR 0xB5] @ '' '' @ [CHR 0xD0, CHR 0xBE, CHR 0xD1,
     CHR 0x82, CHR 0xD0, CHR 0xB2, CHR 0xD0, CHR 0xB5, CHR 0xD1, CHR 0x82] @ '' '' @
     [CHR 0xD0, CHR 0xBE, CHR 0xD1, CHR 0x82] @ '' API '' @ [CHR 0xD0, CHR 0xBD, CHR 0xD0,
     CHR 0xB5] @ '' '' @ [CHR 0xD1, CHR 0x8F, CHR 0xD0, CHR 0xB2, CHR 0xD0, CHR 0xBB,
     CHR 0xD1, CHR 0x8F, CHR 0xD0, CHR 0xB5, CHR 0xD1, CHR 0x82, CHR 0xD1, CHR 0x81,
     CHR 0xD1, CHR 0x8F] @ '' '' @ [CHR 0xD1, CHR 0x81, CHR 0xD0, CHR 0xBB, CHR 0xD0,
     CHR 0xBE, CHR 0xD0, CHR 0xB2, CHR 0xD0, CHR 0xB0, CHR 0xD1, CHR 0x80, CHR 0xD0,
     CHR 0xB5, CHR 0xD0, CHR 0xBC]"

definition msg_no_homeworks_key :: string where
  "msg_no_homeworks_key =
     [CHR 0xD0, CHR 0x9E, CHR 0xD1, CHR 0x82, CHR 0xD1, CHR 0x81, CHR 0xD1, CHR 0x83,
     CHR 0xD1, CHR 0x82, CHR 0xD1, CHR 0x81, CHR 0xD1, CHR 0x82, CHR 0xD0, CHR 0xB2,
     CHR 0xD0, CHR 0xB8, CHR 0xD0, CHR 0xB5] @ '' '' @ [CHR 0xD0, CHR 0xBE, CHR 0xD0,
     CHR 0xB6, CHR 0xD0, CHR 0xB8, CHR 0xD0, CHR 0xB4, CHR 0xD0, CHR 0xB0, CHR 0xD0,
     CHR 0xB5, CHR 0xD0, CHR 0xBC, CHR 0xD1, CHR 0x8B, CHR 0xD1, CHR 0x85] @ '' '' @
     [CHR 0xD0, CHR 0xBA, CHR 0xD0, CHR 0xBB, CHR 0xD1, CHR 0x8E, CHR 0xD1, CHR 0x87,
     CHR 0xD0, CHR 0xB5, CHR 0xD0, CHR 0xB9] @ '' '' @ [CHR 0xD0, CHR 0xB2] @ '' '' @
     [CHR 0xD0, CHR 0xBE, CHR 0xD1, CHR 0x82, CHR 0xD0, CHR 0xB2, CHR 0xD0, CHR 0xB5,
     CHR 0xD1, CHR 0x82, CHR 0xD0, CHR 0xB5] @ '' API: <class '' @ [CHR 0x27] @
     ''KeyError'' @ [CHR 0x27] @ ''>''"

definition msg_not_list :: string where
  "msg_not_list =
     [CHR 0xD0, CHR 0x97, CHR 0xD0, CHR 0xBD, CHR 0xD0, CHR 0xB0, CHR 0xD1, CHR 0x87,
     CHR 0xD0, CHR 0xB5, CHR 0xD0, CHR 0xBD, CHR 0xD0, CHR 0xB8, CHR 0xD0, CHR 0xB5] @
     '' '' @ [CHR 0xD0, CHR 0xBF, CHR 0xD0, CHR 0xBE, CHR 0xD0, CHR 0xB4] @ '' '' @
     [CHR 0xD0, CHR 0xBA, CHR 0xD0, CHR 0xBB, CHR 0xD1, CHR 0x8E, CHR 0xD1, CHR 0x87,
     CHR 0xD0, CHR 0xB5, CHR 0xD0, CHR 0xBC] @ '' homeworks '' @ [CHR 0xD0, CHR 0xBD,
     CHR 0xD0, CHR 0xB5] @ '' list''"

definition msg_no_keys :: string where
  "msg_no_keys =
     [CHR 0xD0, CHR 0x9E, CHR 0xD1, CHR 0x82, CHR 0xD1, CHR 0x81, CHR 0xD1, CHR 0x83,
     CHR 0xD1, CHR 0x82, CHR 0xD1, CHR 0x81, CHR 0xD1, CHR 0x82, CHR 0xD0, CHR 0xB2,
     CHR 0xD0, CHR 0xB8, CHR 0xD0, CHR 0xB5] @ '' '' @ [CHR 0xD0, CHR 0xBD, CHR 0xD0,
     CHR 0xB5, CHR 0xD0, CHR 0xBE, CHR 0xD0, CHR 0xB1, CHR 0xD1, CHR 0x85, CHR 0xD0,
     CHR 0xBE, CHR 0xD0, CHR 0xB4, CHR 0xD0, CHR 0xB8, CHR 0xD0, CHR 0xBC, CHR 0xD1,
     CHR 0x8B, CHR 0xD1, CHR 0x85] @ '' '' @ [CHR 0xD0, CHR 0xBA, CHR 0xD0, CHR 0xBB,
     CHR 0xD1, CHR 0x8E, CHR 0xD1, CHR 0x87, CHR 0xD0, CHR 0xB5, CHR 0xD0, CHR 0xB9] @
     '' status '' @ [CHR 0xD0, CHR 0xB8] @ '' homework_name''"

definition msg_status_changed :: string where
  "msg_status_changed =
     [CHR 0xD0, CHR 0x98, CHR 0xD0, CHR 0xB7, CHR 0xD0, CHR 0xBC, CHR 0xD0, CHR 0xB5,
     CHR 0xD0, CHR 0xBD, CHR 0xD0, CHR 0xB8, CHR 0xD0, CHR 0xBB, CHR 0xD1, CHR 0x81,
     CHR 0xD1, CHR 0x8F] @ '' '' @ [CHR 0xD1, CHR 0x81, CHR 0xD1, CHR 0x82, CHR 0xD0,
     CHR 0xB0, CHR 0xD1, CHR 0x82, CHR 0xD1, CHR 0x83, CHR 0xD1, CHR 0x81] @ '' '' @
     [CHR 0xD0, CHR 0xBF, CHR 0xD1, CHR 0x80, CHR 0xD0, CHR 0xBE, CHR 0xD0, CHR 0xB2,
     CHR 0xD0, CHR 0xB5, CHR 0xD1, CHR 0x80, CHR 0xD0, CHR 0xBA, CHR 0xD0, CHR 0xB8] @
     '' '' @ [CHR 0xD1, CHR 0x80, CHR 0xD0, CHR 0xB0, CHR 0xD0, CHR 0xB1, CHR 0xD0,
     CHR 0xBE, CHR 0xD1, CHR 0x82, CHR 0xD1, CHR 0x8B] @ '' '' @ [CHR 0x22]"

definition msg_unexpected_status :: string where
  "msg_unexpected_status =
     [CHR 0xD0, CHR 0x9D, CHR 0xD0, CHR 0xB5, CHR 0xD0, CHR 0xBE, CHR 0xD0, CHR 0xB6,
     CHR 0xD0, CHR 0xB8, CHR 0xD0, CHR 0xB4, CHR 0xD0, CHR 0xB0, CHR 0xD0, CHR 0xBD,
     CHR 0xD0, CHR 0xBD, CHR 0xD1, CHR 0x8B, CHR 0xD0, CHR 0xB9] @ '' '' @ [CHR 0xD1,
     CHR 0x81, CHR 0xD1, CHR 0x82, CHR 0xD0, CHR 0xB0, CHR 0xD1, CHR 0x82, CHR 0xD1,
     CHR 0x83, CHR 0xD1, CHR 0x81] @ '' '' @ [CHR 0xD0, CHR 0xB4, CHR 0xD0, CHR 0xBE,
     CHR 0xD0, CHR 0xBC, CHR 0xD0, CHR 0xB0, CHR 0xD1, CHR 0x88, CHR 0xD0, CHR 0xBD,
     CHR 0xD0, CHR 0xB5, CHR 0xD0, CHR 0xB9] @ '' '' @ [CHR 0xD1, CHR 0x80, CHR 0xD0,
     CHR 0xB0, CHR 0xD0, CHR 0xB1, CHR 0xD0, CHR 0xBE, CHR 0xD1, CHR 0x82, CHR 0xD1,
     CHR 0x8B] @ '','' @ [CHR 0xD0, CHR 0xBE, CHR 0xD0, CHR 0xB1, CHR 0xD0, CHR 0xBD,
     CHR 0xD0, CHR 0xB0, CHR 0xD1, CHR 0x80, CHR 0xD1, CHR 0x83, CHR 0xD0, CHR 0xB6,
     CHR 0xD0, CHR 0xB5, CHR 0xD0, CHR 0xBD, CHR 0xD0, CHR 0xBD, CHR 0xD1, CHR 0x8B,
     CHR 0xD0, CHR 0xB9] @ '' '' @ [CHR 0xD0, CHR 0xB2] @ '' '' @ [CHR 0xD0, CHR 0xBE,
     CHR 0xD1, CHR 0x82, CHR 0xD0, CHR 0xB2, CHR 0xD0, CHR 0xB5, CHR 0xD1, CHR 0x82,
     CHR 0xD0, CHR 0xB5] @ '' API ''"

definition msg_bot_init_failed :: string where
  "msg_bot_init_failed =
     [CHR 0xD0, CHR 0x91, CHR 0xD0, CHR 0xBE, CHR 0xD1, CHR 0x82] @ '' '' @ [CHR 0xD0,
     CHR 0xBD, CHR 0xD0, CHR 0xB5, CHR 0xD0, CHR 0xBA, CHR 0xD0, CHR 0xBE, CHR 0xD1,
     CHR 0x80, CHR 0xD1, CHR 0x80, CHR 0xD0, CHR 0xB5, CHR 0xD0, CHR 0xBA, CHR 0xD1,
     CHR 0x82, CHR 0xD0, CHR 0xBD, CHR 0xD0, CHR 0xBE] @ '' '' @ [CHR 0xD0, CHR 0xBF,
     CHR 0xD1, CHR 0x80, CHR 0xD0, CHR 0xBE, CHR 0xD0, CHR 0xB8, CHR 0xD0, CHR 0xBD,
     CHR 0xD0, CHR 0xB8, CHR 0xD1, CHR 0x86, CHR 0xD0, CHR 0xB8, CHR 0xD0, CHR 0xB0,
     CHR 0xD0, CHR 0xBB, CHR 0xD0, CHR 0xB8, CHR 0xD0, CHR 0xB7, CHR 0xD0, CHR 0xB8,
     CHR 0xD1, CHR 0x80, CHR 0xD0, CHR 0xBE, CHR 0xD0, CHR 0xB2, CHR 0xD0, CHR 0xB0,
     CHR 0xD0, CHR 0xBB, CHR 0xD1, CHR 0x81, CHR 0xD1, CHR 0x8F] @ '' : ''"

definition msg_no_new_status :: string where
  "msg_no_new_status =
     [CHR 0xD0, CHR 0x92] @ '' '' @ [CHR 0xD0, CHR 0xBE, CHR 0xD1, CHR 0x82, CHR 0xD0,
     CHR 0xB2, CHR 0xD0, CHR 0xB5, CHR 0xD1, CHR 0x82, CHR 0xD0, CHR 0xB5] @ '' '' @
     [CHR 0xD0, CHR 0xBE, CHR 0xD1, CHR 0x82, CHR 0xD1, CHR 0x81, CHR 0xD1, CHR 0x83,
     CHR 0xD1, CHR 0x82, CHR 0xD1, CHR 0x81, CHR 0xD1, CHR 0x82, CHR 0xD0, CHR 0xB2,
     CHR 0xD1, CHR 0x83, CHR 0xD0, CHR 0xB5, CHR 0xD1, CHR 0x82] @ '' '' @ [CHR 0xD0,
     CHR 0xBD, CHR 0xD0, CHR 0xBE, CHR 0xD0, CHR 0xB2, CHR 0xD1, CHR 0x8B, CHR 0xD0,
     CHR 0xB9] @ '' '' @ [CHR 0xD1, CHR 0x81, CHR 0xD1, CHR 0x82, CHR 0xD0, CHR 0xB0,
     CHR 0xD1, CHR 0x82, CHR 0xD1, CHR 0x83, CHR 0xD1, CHR 0x81]"

definition msg_failure :: string where
  "msg_failure =
     [CHR 0xD0, CHR 0xA1, CHR 0xD0, CHR 0xB1, CHR 0xD0, CHR 0xBE, CHR 0xD0, CHR 0xB9] @
     '' '' @ [CHR 0xD0, CHR 0xB2] @ '' '' @ [CHR 0xD1, CHR 0x80, CHR 0xD0, CHR 0xB0,
     CHR 0xD0, CHR 0xB1, CHR 0xD0, CHR 0xBE, CHR 0xD1, CHR 0x82, CHR 0xD0, CHR 0xB5] @
     '' '' @ [CHR 0xD0, CHR 0xBF, CHR 0xD1, CHR 0x80, CHR 0xD0, CHR 0xBE, CHR 0xD0,
     CHR 0xB3, CHR 0xD1, CHR 0x80, CHR 0xD0, CHR 0xB0, CHR 0xD0, CHR 0xBC, CHR 0xD0,
     CHR 0xBC, CHR 0xD1, CHR 0x8B] @ '': ''"

definition TOKENS_NAMES :: "string list" where
  "TOKENS_NAMES = [''PRACTICUM_TOKEN'', ''TELEGRAM_TOKEN'', ''TELEGRAM_CHAT_ID'']"

definition RETRY_PERIOD :: int where
  "RETRY_PERIOD = 600"

definition HOMEWORK_VERDICTS :: "(string \<times> string) list" where
  "HOMEWORK_VERDICTS =
     [(''approved'', verdict_approved),
      (''reviewing'', verdict_reviewing),
      (''rejected'', verdict_rejected)]"

section \<open>The functions of the module\<close>

text \<open>
  A function returns a pair: \<open>Inl\<close> of the exception that leaves it or \<open>Inr\<close> of its
  value, and the world after it. \<^verbatim>\<open>check_tokens\<close> and \<^verbatim>\<open>send_message\<close> have no
  \<^verbatim>\<open>return\<close> statement: their value is \<^verbatim>\<open>None\<close>.
\<close>

subsection \<open>\<^verbatim>\<open>check_tokens\<close>\<close>

definition check_tokens :: "python \<Rightarrow> env \<Rightarrow> world \<Rightarrow> (exn + pyval) \<times> world" where
  "check_tokens py e w =
     (let tokens = [PRACTICUM_TOKEN e, TELEGRAM_TOKEN e, TELEGRAM_CHAT_ID e] in
      if \<not> list_all truthy tokens then
        let none_tikens = [TOKENS_NAMES ! i. (i, x) \<leftarrow> enumerate 0 tokens, \<not> truthy x];
            text = msg_missing_tokens @ repr py (PList (map PStr none_tikens))
        in (Inl (Exn MissTokenError text None), logging CRITICAL text w)
      else (Inr PNone, w))"

subsection \<open>\<^verbatim>\<open>send_message\<close>\<close>

definition send_message :: "python \<Rightarrow> bot \<Rightarrow> string \<Rightarrow> world \<Rightarrow> (exn + pyval) \<times> world" where
  "send_message py tbot message w =
     (let w1 = w\<lparr>sent := sent w @ [message]\<rparr> in
      case tbot (sent w) message of
        None \<Rightarrow> (Inr PNone, logging DEBUG msg_sent_ok w1)
      | Some error \<Rightarrow>
          if cls error = TelegramError
          then (Inl (not_callable py error),
                logging ERROR (msg_send_failed @ exn_str py error) w1)
          else (Inl error, w1))"

subsection \<open>\<^verbatim>\<open>get_api_answer\<close>\<close>

text \<open>
  The \<^verbatim>\<open>except\<close> clauses of the function, in their order. \<^verbatim>\<open>JSONDecodeError\<close> takes three
  arguments (\<^verbatim>\<open>msg\<close>, \<^verbatim>\<open>doc\<close>, \<^verbatim>\<open>pos\<close>), so building one from a single string fails;
  the four clauses for request errors call the caught instance. An exception that no
  clause names leaves the function as it is; \<open>ResponseError\<close> is such a one.
\<close>

definition api_handlers :: "python \<Rightarrow> exn \<Rightarrow> exn" where
  "api_handlers py error =
     (if cls error = JSONDecodeError
      then interpreter_error py TypeError (MissingArguments JSONDecodeError) (Some error)
      else if cls error = HTTPError then not_callable py error
      else if cls error = Timeout then not_callable py error
      else if cls error = ConnectionError then not_callable py error
      else if cls error = RequestException then not_callable py error
      else error)"

definition get_api_answer ::
  "python \<Rightarrow> exchange \<Rightarrow> int \<Rightarrow> world \<Rightarrow> (exn + pyval) \<times> world" where
  "get_api_answer py exchange timestamp w =
     (let w1 = w\<lparr>fetched := fetched w @ [timestamp]\<rparr> in
      case exchange timestamp of
        Raises error \<Rightarrow> (Inl (api_handlers py error), w1)
      | Response status_code body \<Rightarrow>
          if status_code \<noteq> 200
          then (Inl (api_handlers py
                  (Exn ResponseError (msg_bad_answer @ py_str py (PInt status_code)) None)), w1)
          else
            (case body of
               None \<Rightarrow>
                 (Inl (api_handlers py (interpreter_error py JSONDecodeError Undecodable None)),
                  w1)
             | Some response \<Rightarrow>
                 (case response of
                    PDict kvs \<Rightarrow>
                      (case map_of kvs ''error'' of
                         Some v \<Rightarrow>
                           (Inl (api_handlers py
                              (Exn ResponseError (msg_bad_answer @ py_str py v) None)), w1)
                       | None \<Rightarrow>
                           (case map_of kvs ''code'' of
                              Some v \<Rightarrow>
                                (Inl (api_handlers py
                                   (Exn ResponseError (msg_bad_answer @ py_str py v) None)),
                                 w1)
                            | None \<Rightarrow> (Inr response, w1)))
                  | _ \<Rightarrow>
                      (Inl (api_handlers py
                         (interpreter_error py AttributeError
                            (NoAttribute response ''keys'') None)), w1))))"

subsection \<open>\<^verbatim>\<open>check_response\<close>\<close>

definition check_response :: "pyval \<Rightarrow> exn + pyval list" where
  "check_response response =
     (case response of
        PDict kvs \<Rightarrow>
          (case map_of kvs ''homeworks'' of
             None \<Rightarrow> Inl (Exn KeyError msg_no_homeworks_key None)
           | Some (PList homeworks) \<Rightarrow> Inr homeworks
           | Some _ \<Rightarrow> Inl (Exn TypeError msg_not_list None))
      | _ \<Rightarrow> Inl (Exn TypeError msg_not_dict None))"

subsection \<open>\<^verbatim>\<open>parse_status\<close>\<close>

text \<open>
  Subscripting a value that is no \<^verbatim>\<open>dict\<close> with a string raises \<^verbatim>\<open>TypeError\<close>, which
  the \<^verbatim>\<open>except KeyError\<close> of the function lets through. The membership test
  \<^verbatim>\<open>status in HOMEWORK_VERDICTS.keys()\<close> hashes \<^verbatim>\<open>status\<close>: a list or a dict raises
  \<^verbatim>\<open>TypeError\<close>, and a value that is no string is never a key of the table.
\<close>

definition parse_status :: "python \<Rightarrow> pyval \<Rightarrow> exn + string" where
  "parse_status py homework =
     (case homework of
        PDict kvs \<Rightarrow>
          (case map_of kvs ''status'' of
             None \<Rightarrow> Inl (Exn KeyError msg_no_keys (Some (Exn KeyError ''status'' None)))
           | Some status \<Rightarrow>
               (case map_of kvs ''homework_name'' of
                  None \<Rightarrow>
                    Inl (Exn KeyError msg_no_keys (Some (Exn KeyError ''homework_name'' None)))
                | Some homework_name \<Rightarrow>
                    (case status of
                       PList _ \<Rightarrow> Inl (interpreter_error py TypeError (Unhashable status) None)
                     | PDict _ \<Rightarrow> Inl (interpreter_error py TypeError (Unhashable status) None)
                     | PStr s \<Rightarrow>
                         (case map_of HOMEWORK_VERDICTS s of
                            Some verdict \<Rightarrow>
                              Inr (msg_status_changed @ py_str py homework_name
                                   @ [CHR 0x22] @ ''. '' @ verdict)
                          | None \<Rightarrow>
                              Inl (Exn VerdictErrors (msg_unexpected_status @ s) None))
                     | _ \<Rightarrow>
                         Inl (Exn VerdictErrors
                                (msg_unexpected_status @ py_str py status) None))))
      | _ \<Rightarrow> Inl (interpreter_error py TypeError (BadSubscript homework) None))"

subsection \<open>\<^verbatim>\<open>main\<close>\<close>

definition sleep :: "int \<Rightarrow> world \<Rightarrow> world" where
  "sleep secs w = w\<lparr>slept := slept w @ [secs]\<rparr>"

text \<open>
  The \<^verbatim>\<open>try\<close> block of the loop (lines 149-157). It returns the exception that leaves
  it, if any, together with \<^verbatim>\<open>current_status\<close>, which line 154 assigns before line
  155 sends.
\<close>

definition try_block ::
  "python \<Rightarrow> bot \<Rightarrow> int \<Rightarrow> exchange \<Rightarrow> string \<Rightarrow> world \<Rightarrow> exn option \<times> string \<times> world" where
  "try_block py tbot timestamp exchange current_status w =
     (case get_api_answer py exchange timestamp w of
        (Inl error, w1) \<Rightarrow> (Some error, current_status, w1)
      | (Inr response, w1) \<Rightarrow>
          (case check_response response of
             Inl error \<Rightarrow> (Some error, current_status, w1)
           | Inr homeworks \<Rightarrow>
               (case homeworks of
                  [] \<Rightarrow> (None, current_status, w1)
                | homework # _ \<Rightarrow>
                    (case parse_status py homework of
                       Inl error \<Rightarrow> (Some error, current_status, w1)
                     | Inr verdict \<Rightarrow>
                         if current_status \<noteq> verdict
                         then (case send_message py tbot verdict w1 of
                                 (Inl error, w2) \<Rightarrow> (Some error, verdict, w2)
                               | (Inr _, w2) \<Rightarrow> (None, verdict, w2))
                         else (None, current_status, logging DEBUG msg_no_new_status w1)))))"

text \<open>
  One iteration of \<^verbatim>\<open>while True\<close> (lines 148-166): the \<^verbatim>\<open>try\<close> block, its two
  \<^verbatim>\<open>except\<close> clauses, and the sleep. An exception raised inside the second clause is
  handled nowhere: it leaves \<^verbatim>\<open>main\<close>, and the iteration returns it.
\<close>

definition cycle ::
  "python \<Rightarrow> bot \<Rightarrow> int \<Rightarrow> exchange \<Rightarrow> string \<Rightarrow> world \<Rightarrow> exn option \<times> string \<times> world" where
  "cycle py tbot timestamp exchange current_status w =
     (case try_block py tbot timestamp exchange current_status w of
        (None, current_status', w1) \<Rightarrow> (None, current_status', sleep RETRY_PERIOD w1)
      | (Some error, current_status', w1) \<Rightarrow>
          if cls error = TelegramError
          then (None, current_status', sleep RETRY_PERIOD w1)
          else
            (let message = msg_failure @ exn_str py error;
                 w2 = logging ERROR message w1
             in case send_message py tbot message w2 of
                  (Inl error', w3) \<Rightarrow> (Some error', current_status', w3)
                | (Inr _, w3) \<Rightarrow> (None, current_status', sleep RETRY_PERIOD w3)))"

text \<open>
  The loop never ends by itself. It is run against the list of the HTTP exchanges of its
  first iterations, one exchange an iteration: the result \<open>None\<close> says that the loop is
  still running after them, \<open>Some e\<close> that \<open>e\<close> left \<^verbatim>\<open>main\<close> in one of them.
\<close>

fun main_loop ::
  "python \<Rightarrow> bot \<Rightarrow> int \<Rightarrow> exchange list \<Rightarrow> string \<Rightarrow> world \<Rightarrow> exn option \<times> string \<times> world" where
  "main_loop py tbot timestamp [] current_status w = (None, current_status, w)"
| "main_loop py tbot timestamp (exchange # exchanges) current_status w =
     (case cycle py tbot timestamp exchange current_status w of
        (Some error, current_status', w') \<Rightarrow> (Some error, current_status', w')
      | (None, current_status', w') \<Rightarrow>
          main_loop py tbot timestamp exchanges current_status' w')"

definition start :: world where
  "start = \<lparr>log = [], sent = [], fetched = [], slept = []\<rparr>"

text \<open>
  \<^verbatim>\<open>main\<close> (lines 136-166). \<open>bot_init\<close> is the exception \<^verbatim>\<open>telegram.Bot(...)\<close> raises, if
  any; \<open>today\<close> is \<^verbatim>\<open>datetime.date.today()\<close> as a day number, so that subtracting
  \<^verbatim>\<open>timedelta(days=30)\<close> subtracts 30; \<open>mktime\<close> maps a day to the Unix time of its
  local midnight, as \<^verbatim>\<open>int(time.mktime(d.timetuple()))\<close> does.
\<close>

definition main ::
  "python \<Rightarrow> env \<Rightarrow> exn option \<Rightarrow> bot \<Rightarrow> int \<Rightarrow> (int \<Rightarrow> int) \<Rightarrow> exchange list
     \<Rightarrow> exn option \<times> string \<times> world" where
  "main py e bot_init tbot today mktime exchanges =
     (case check_tokens py e start of
        (Inl error, w1) \<Rightarrow> (Some error, [], w1)
      | (Inr _, w1) \<Rightarrow>
          (case bot_init of
             Some error \<Rightarrow>
               (Some (not_callable py error), [],
                logging ERROR (msg_bot_init_failed @ exn_str py error) w1)
           | None \<Rightarrow> main_loop py tbot (mktime (today - 30)) exchanges [] w1))"

section \<open>Notions used to state the properties\<close>

definition raises :: "exn_class \<Rightarrow> exn + 'a \<Rightarrow> bool" where
  "raises c r = (case r of Inl e \<Rightarrow> cls e = c | Inr _ \<Rightarrow> False)"

definition isinstance_dict :: "pyval \<Rightarrow> bool" where
  "isinstance_dict v = (case v of PDict _ \<Rightarrow> True | _ \<Rightarrow> False)"

definition isinstance_list :: "pyval \<Rightarrow> bool" where
  "isinstance_list v = (case v of PList _ \<Rightarrow> True | _ \<Rightarrow> False)"

definition has_key :: "string \<Rightarrow> pyval \<Rightarrow> bool" where
  \<comment> \<open>\<^verbatim>\<open>k in v.keys()\<close> for a dict \<open>v\<close>; false for a value that is no dict\<close>
  "has_key k v = (case v of PDict kvs \<Rightarrow> map_of kvs k \<noteq> None | _ \<Rightarrow> False)"

text \<open>
  The names of the environment values that are unset or empty, in the order of
  \<^verbatim>\<open>TOKENS_NAMES\<close>: what the critical message is expected to enumerate.
\<close>

definition missing_names :: "env \<Rightarrow> string list" where
  "missing_names e =
     map fst (filter (\<lambda>(name, x). \<not> truthy x)
       [(''PRACTICUM_TOKEN'', PRACTICUM_TOKEN e),
        (''TELEGRAM_TOKEN'', TELEGRAM_TOKEN e),
        (''TELEGRAM_CHAT_ID'', TELEGRAM_CHAT_ID e)])"

subsection \<open>Sample surroundings\<close>

text \<open>
  Concrete surroundings on which the results are evaluated: an interpreter with fixed
  renderings; a bot that always delivers, one that never does and one that fails on its
  first call only; an environment with the three values set; HTTP exchanges that answer
  with a list of homework records, with a bare status code, with a given body, with a
  body that cannot be decoded, or with a timeout; and a clock in UTC, where a day number
  counts the days since 1 January 1970.
\<close>

fun sample_repr :: "pyval \<Rightarrow> string" where
  "sample_repr v = ''<value>''"

fun sample_fault_text :: "fault \<Rightarrow> string" where
  "sample_fault_text f = ''<fault>''"

definition sample_python :: python where
  "sample_python = \<lparr>repr = sample_repr, fault_text = sample_fault_text\<rparr>"

fun reliable_bot :: bot where
  "reliable_bot history message = None"

fun failing_bot :: bot where
  "failing_bot history message = Some (Exn TelegramError ''Timed out'' None)"

definition sample_env :: env where
  "sample_env =
     \<lparr>PRACTICUM_TOKEN = Some ''p'', TELEGRAM_TOKEN = Some ''t'', TELEGRAM_CHAT_ID = Some ''1''\<rparr>"

definition homework_record :: "string \<Rightarrow> string \<Rightarrow> pyval" where
  "homework_record name status =
     PDict [(''homework_name'', PStr name), (''status'', PStr status)]"

fun answer :: "pyval list \<Rightarrow> exchange" where
  "answer homeworks from_date =
     Response 200
       (Some (PDict [(''homeworks'', PList homeworks), (''current_date'', PInt from_date)]))"

fun flaky_bot :: bot where
  "flaky_bot history message =
     (if history = [] then Some (Exn TelegramError ''Timed out'' None) else None)"

fun undecodable :: exchange where
  "undecodable from_date = Response 200 None"

fun timed_out :: exchange where
  "timed_out from_date = Raises (Exn Timeout ''Read timed out'' None)"

fun status_only :: "int \<Rightarrow> exchange" where
  "status_only status_code from_date = Response status_code None"

fun body_only :: "pyval \<Rightarrow> exchange" where
  "body_only body from_date = Response 200 (Some body)"

fun utc_midnight :: "int \<Rightarrow> int" where
  "utc_midnight day = 86400 * day"

section \<open>Properties\<close>

subsection \<open>\<^verbatim>\<open>check_response\<close>\<close>

text \<open>
  C6. \<^verbatim>\<open>check_response\<close> raises \<^verbatim>\<open>TypeError\<close> when its argument is not a dict (a
  list or \<^verbatim>\<open>None\<close>, for example), raises \<^verbatim>\<open>KeyError\<close> when the dict has no key
  \<^verbatim>\<open>homeworks\<close>, raises \<^verbatim>\<open>TypeError\<close> when the value under \<^verbatim>\<open>homeworks\<close> is not a list (a
  string or an integer, for example), and otherwise returns the list under
  \<^verbatim>\<open>homeworks\<close> as it is, elements and order unchanged.
\<close>

theorem check_response_contract:
  "(\<not> isinstance_dict r1 \<longrightarrow> raises TypeError (check_response r1))
   \<and> (map_of kvs2 ''homeworks'' = None \<longrightarrow> raises KeyError (check_response (PDict kvs2)))
   \<and> (map_of kvs3 ''homeworks'' = Some v3 \<and> \<not> isinstance_list v3
        \<longrightarrow> raises TypeError (check_response (PDict kvs3)))
   \<and> (map_of kvs4 ''homeworks'' = Some (PList homeworks)
        \<longrightarrow> check_response (PDict kvs4) = Inr homeworks)"
  by (auto simp: check_response_def raises_def isinstance_dict_def isinstance_list_def
           split: pyval.splits)

theorem check_response_contract_witness:
  "\<not> isinstance_dict (PList [PInt 1])
   \<and> raises TypeError (check_response (PList [PInt 1]))
   \<and> map_of [(''current_date'', PInt 5)] ''homeworks'' = None
   \<and> raises KeyError (check_response (PDict [(''current_date'', PInt 5)]))
   \<and> \<not> isinstance_list (PStr ''abc'')
   \<and> raises TypeError (check_response (PDict [(''homeworks'', PStr ''abc'')]))
   \<and> check_response (PDict [(''homeworks'', PList [PInt 2, PInt 1])]) = Inr [PInt 2, PInt 1]"
  using check_response_contract [of "PList [PInt 1]" "[(''current_date'', PInt 5)]"
      "[(''homeworks'', PStr ''abc'')]" "PStr ''abc''"
      "[(''homeworks'', PList [PInt 2, PInt 1])]" "[PInt 2, PInt 1]"]
  by (simp add: isinstance_dict_def isinstance_list_def)

subsection \<open>\<^verbatim>\<open>parse_status\<close>\<close>

text \<open>
  C5. \<^verbatim>\<open>parse_status\<close> raises \<^verbatim>\<open>KeyError\<close> when \<^verbatim>\<open>status\<close> or \<^verbatim>\<open>homework_name\<close> is
  absent from the record. When both are present, for each of the three statuses
  \<^verbatim>\<open>approved\<close>, \<^verbatim>\<open>reviewing\<close> and \<^verbatim>\<open>rejected\<close> it returns the sentence made of the fixed
  opening, the homework name between quotation marks, and the text that
  \<^verbatim>\<open>HOMEWORK_VERDICTS\<close> gives for the status; for every other status string it raises
  \<^verbatim>\<open>VerdictErrors\<close> with a message that ends with the status. A name that is a string
  enters the sentence as it is.
\<close>

theorem parse_status_contract:
  "(map_of kvs1 ''status'' = None \<or> map_of kvs1 ''homework_name'' = None
      \<longrightarrow> raises KeyError (parse_status py (PDict kvs1)))
   \<and> (map_of kvs2 ''status'' = Some (PStr s2) \<and> map_of kvs2 ''homework_name'' = Some n2
        \<and> s2 \<in> {''approved'', ''reviewing'', ''rejected''}
      \<longrightarrow> parse_status py (PDict kvs2)
            = Inr (msg_status_changed @ py_str py n2 @ [CHR 0x22] @ ''. '' @
                   (if s2 = ''approved'' then verdict_approved
                    else if s2 = ''reviewing'' then verdict_reviewing
                    else verdict_rejected)))
   \<and> (map_of kvs3 ''status'' = Some (PStr s3) \<and> map_of kvs3 ''homework_name'' = Some n3
        \<and> s3 \<notin> {''approved'', ''reviewing'', ''rejected''}
      \<longrightarrow> parse_status py (PDict kvs3)
            = Inl (Exn VerdictErrors (msg_unexpected_status @ s3) None))
   \<and> py_str py (PStr name) = name"
  by (auto simp: parse_status_def raises_def HOMEWORK_VERDICTS_def py_str_def
           split: option.splits)

theorem parse_status_contract_witness:
  "map_of [(''status'', PStr ''approved'')] ''homework_name'' = None
   \<and> raises KeyError (parse_status sample_python (PDict [(''status'', PStr ''approved'')]))
   \<and> ''rejected'' \<in> {''approved'', ''reviewing'', ''rejected''}
   \<and> parse_status sample_python (homework_record ''hw05'' ''rejected'')
       = Inr (msg_status_changed @ ''hw05'' @ [CHR 0x22] @ ''. '' @ verdict_rejected)
   \<and> ''unknown'' \<notin> {''approved'', ''reviewing'', ''rejected''}
   \<and> parse_status sample_python (homework_record ''hw05'' ''unknown'')
       = Inl (Exn VerdictErrors (msg_unexpected_status @ ''unknown'') None)"
  using parse_status_contract [of "[(''status'', PStr ''approved'')]" sample_python
      "[(''homework_name'', PStr ''hw05''), (''status'', PStr ''rejected'')]" "''rejected''"
      "PStr ''hw05''"
      "[(''homework_name'', PStr ''hw05''), (''status'', PStr ''unknown'')]" "''unknown''"
      "PStr ''hw05''" "''hw05''"]
  by (simp add: homework_record_def)

text \<open>
  C10. \<^verbatim>\<open>parse_status\<close> looks at nothing but \<^verbatim>\<open>status\<close> and \<^verbatim>\<open>homework_name\<close>: two
  records that agree on these two keys (each present with the same value in both, or
  absent from both) give the same outcome, the same sentence or the same exception,
  whatever else they hold.
\<close>

theorem parse_status_other_fields:
  "map_of kvs ''status'' = map_of kvs' ''status'' \<Longrightarrow>
   map_of kvs ''homework_name'' = map_of kvs' ''homework_name'' \<Longrightarrow>
   parse_status py (PDict kvs) = parse_status py (PDict kvs')"
  unfolding parse_status_def pyval.case by (simp only:)

theorem parse_status_other_fields_witness:
  "parse_status sample_python
     (PDict [(''id'', PInt 7), (''status'', PStr ''approved''), (''homework_name'', PStr ''hw05''),
             (''reviewer_comment'', PStr ''fine'')])
   = parse_status sample_python
       (PDict [(''homework_name'', PStr ''hw05''), (''lesson_name'', PStr ''bots''),
               (''status'', PStr ''approved'')])"
  using parse_status_other_fields [of
      "[(''id'', PInt 7), (''status'', PStr ''approved''), (''homework_name'', PStr ''hw05''),
        (''reviewer_comment'', PStr ''fine'')]"
      "[(''homework_name'', PStr ''hw05''), (''lesson_name'', PStr ''bots''),
        (''status'', PStr ''approved'')]" sample_python]
  by simp

subsection \<open>\<^verbatim>\<open>check_tokens\<close>\<close>

text \<open>
  C7, as the code has it. \<^verbatim>\<open>check_tokens\<close> raises \<^verbatim>\<open>MissTokenError\<close> whenever one of the
  three environment values is unset or the empty string, after logging one record of
  level critical; the record and the exception carry the same text, which ends with
  the list of the names of the missing values. When the three values are set, the
  function raises nothing, logs nothing and returns \<^verbatim>\<open>None\<close>: the values stay in the
  globals of the module, the function does not return them.
\<close>

theorem check_tokens_contract:
  "check_tokens py e w =
     (if truthy (PRACTICUM_TOKEN e) \<and> truthy (TELEGRAM_TOKEN e) \<and> truthy (TELEGRAM_CHAT_ID e)
      then (Inr PNone, w)
      else (Inl (Exn MissTokenError
                  (msg_missing_tokens @ repr py (PList (map PStr (missing_names e)))) None),
            w\<lparr>log := log w @
              [(CRITICAL, msg_missing_tokens @ repr py (PList (map PStr (missing_names e))))]\<rparr>))
   \<and> truthy x = (x \<noteq> None \<and> x \<noteq> Some [])"
  by (auto simp: check_tokens_def missing_names_def TOKENS_NAMES_def logging_def
      enumerate_eq_zip upt_rec Let_def truthy_def split: option.splits)

text \<open>
  C7, as it is stated, has the function return the three values when they are set. With
  the three values set to \<^verbatim>\<open>p\<close>, \<^verbatim>\<open>t\<close> and \<^verbatim>\<open>1\<close> the function returns \<^verbatim>\<open>None\<close>, which is
  not the three values.
\<close>

theorem check_tokens_returns_None:
  "fst (check_tokens sample_python sample_env start) = Inr PNone
   \<and> PNone \<noteq> PList [PStr ''p'', PStr ''t'', PStr ''1'']"
  by (simp add: check_tokens_def sample_env_def truthy_def)

subsection \<open>\<^verbatim>\<open>send_message\<close>\<close>

text \<open>
  C3 asks that \<^verbatim>\<open>send_message\<close>, when the bot reports a delivery failure, log at error
  level and raise an error of the \<^verbatim>\<open>TelegramError\<close> kind. The function logs, but line 55
  calls the caught instance instead of raising it: with a bot whose
  \<^verbatim>\<open>send_message\<close> raises \<^verbatim>\<open>TelegramError('Timed out')\<close>, what leaves the function is a
  \<^verbatim>\<open>TypeError\<close>, with the \<^verbatim>\<open>TelegramError\<close> as its context only.
\<close>

theorem send_message_delivery_failure:
  "send_message sample_python failing_bot ''hello'' start
     = (Inl (Exn TypeError ''<fault>'' (Some (Exn TelegramError ''Timed out'' None))),
        start\<lparr>log := [(ERROR, msg_send_failed @ ''Timed out'')], sent := [''hello'']\<rparr>)"
  by (simp add: send_message_def sample_python_def start_def not_callable_def
      interpreter_error_def logging_def exn_str_def)

subsection \<open>\<^verbatim>\<open>get_api_answer\<close>\<close>

text \<open>
  C4, as the code has it. \<^verbatim>\<open>get_api_answer\<close> returns a value exactly when the status
  code is 200, the body decodes to a dict, and the dict has neither the key \<^verbatim>\<open>error\<close>
  nor the key \<^verbatim>\<open>code\<close>; the value is then the decoded body, unchanged. A status code
  other than 200, a key \<^verbatim>\<open>error\<close>, and a key \<^verbatim>\<open>code\<close> each raise \<^verbatim>\<open>ResponseError\<close> with
  a message made of a fixed opening and the status code, or the value under the key.
  A body that cannot be decoded and a failure of the transport make the call raise too:
  nothing is swallowed. Every call issues one request and touches nothing else.
\<close>

theorem get_api_answer_contract:
  "(fst (get_api_answer py x0 t0 w0) = Inr r0
      \<longleftrightarrow> x0 t0 = Response 200 (Some r0) \<and> isinstance_dict r0
          \<and> \<not> has_key ''error'' r0 \<and> \<not> has_key ''code'' r0)
   \<and> (x1 t1 = Response c1 b1 \<and> c1 \<noteq> 200
        \<longrightarrow> fst (get_api_answer py x1 t1 w1)
            = Inl (Exn ResponseError (msg_bad_answer @ py_str py (PInt c1)) None))
   \<and> (x2 t2 = Response 200 (Some (PDict kvs2)) \<and> map_of kvs2 ''error'' = Some v2
        \<longrightarrow> fst (get_api_answer py x2 t2 w2)
            = Inl (Exn ResponseError (msg_bad_answer @ py_str py v2) None))
   \<and> (x3 t3 = Response 200 (Some (PDict kvs3)) \<and> map_of kvs3 ''error'' = None
        \<and> map_of kvs3 ''code'' = Some v3
        \<longrightarrow> fst (get_api_answer py x3 t3 w3)
            = Inl (Exn ResponseError (msg_bad_answer @ py_str py v3) None))
   \<and> (x4 t4 = Response 200 None \<longrightarrow> isl (fst (get_api_answer py x4 t4 w4)))
   \<and> (x5 t5 = Raises e5 \<longrightarrow> isl (fst (get_api_answer py x5 t5 w5)))
   \<and> snd (get_api_answer py x6 t6 w6) = w6\<lparr>fetched := fetched w6 @ [t6]\<rparr>"
  by (auto simp: get_api_answer_def api_handlers_def Let_def isinstance_dict_def has_key_def
           split: http.splits option.splits pyval.splits)

theorem get_api_answer_contract_witness:
  "fst (get_api_answer sample_python (answer [homework_record ''hw05'' ''approved'']) 7 start)
     = Inr (PDict [(''homeworks'', PList [homework_record ''hw05'' ''approved'']),
                   (''current_date'', PInt 7)])
   \<and> fst (get_api_answer sample_python (status_only 404) 7 start)
     = Inl (Exn ResponseError (msg_bad_answer @ ''<value>'') None)
   \<and> fst (get_api_answer sample_python
            (body_only (PDict [(''error'', PStr ''bad_request'')])) 7 start)
     = Inl (Exn ResponseError (msg_bad_answer @ ''bad_request'') None)
   \<and> fst (get_api_answer sample_python
            (body_only (PDict [(''code'', PStr ''not_authenticated'')])) 7 start)
     = Inl (Exn ResponseError (msg_bad_answer @ ''not_authenticated'') None)
   \<and> isl (fst (get_api_answer sample_python undecodable 7 start))
   \<and> isl (fst (get_api_answer sample_python timed_out 7 start))
   \<and> fetched (snd (get_api_answer sample_python timed_out 7 start)) = [7]"
  using get_api_answer_contract [of sample_python
      "answer [homework_record ''hw05'' ''approved'']" 7 start
      "PDict [(''homeworks'', PList [homework_record ''hw05'' ''approved'']),
              (''current_date'', PInt 7)]"
      "status_only 404" 7 404 None start
      "body_only (PDict [(''error'', PStr ''bad_request'')])" 7
      "[(''error'', PStr ''bad_request'')]" "PStr ''bad_request''" start
      "body_only (PDict [(''code'', PStr ''not_authenticated'')])" 7
      "[(''code'', PStr ''not_authenticated'')]" "PStr ''not_authenticated''" start
      undecodable 7 start timed_out 7 "Exn Timeout ''Read timed out'' None" start
      timed_out 7 start]
  by (simp add: isinstance_dict_def has_key_def py_str_def sample_python_def start_def)

text \<open>
  C4, as it is stated, fails in three places. A body that cannot be decoded raises
  \<^verbatim>\<open>TypeError\<close>, not \<^verbatim>\<open>ResponseError\<close>: line 85 builds a \<^verbatim>\<open>JSONDecodeError\<close>, which is no
  \<^verbatim>\<open>ResponseError\<close>, and builds it with one argument of the three it takes. A timeout
  leaves the function as a \<^verbatim>\<open>TypeError\<close>, not as an error of its own kind: line 90 calls
  the caught instance. And a body that decodes to a list has neither key, yet the call
  returns nothing: \<^verbatim>\<open>response.keys()\<close> raises \<^verbatim>\<open>AttributeError\<close>.
\<close>

theorem get_api_answer_counterexample:
  "fst (get_api_answer sample_python undecodable 7 start)
     = Inl (Exn TypeError ''<fault>'' (Some (Exn JSONDecodeError ''<fault>'' None)))
   \<and> \<not> raises ResponseError (fst (get_api_answer sample_python undecodable 7 start))
   \<and> fst (get_api_answer sample_python timed_out 7 start)
     = Inl (Exn TypeError ''<fault>'' (Some (Exn Timeout ''Read timed out'' None)))
   \<and> \<not> raises Timeout (fst (get_api_answer sample_python timed_out 7 start))
   \<and> \<not> has_key ''error'' (PList []) \<and> \<not> has_key ''code'' (PList [])
   \<and> raises AttributeError (fst (get_api_answer sample_python (body_only (PList [])) 7 start))"
  by (simp add: get_api_answer_def api_handlers_def sample_python_def interpreter_error_def
      not_callable_def raises_def has_key_def)

subsection \<open>The effects of \<^verbatim>\<open>send_message\<close> and \<^verbatim>\<open>get_api_answer\<close> on the world\<close>

lemma send_message_sent: "sent (snd (send_message py tbot m w)) = sent w @ [m]"
  by (simp add: send_message_def logging_def Let_def split: option.splits)

lemma send_message_fetched: "fetched (snd (send_message py tbot m w)) = fetched w"
  by (simp add: send_message_def logging_def Let_def split: option.splits)

lemma send_message_delivers:
  "tbot (sent w) m = None \<Longrightarrow> fst (send_message py tbot m w) = Inr PNone"
  by (simp add: send_message_def Let_def)

lemma send_message_raises:
  "tbot (sent w) m = Some e \<Longrightarrow> isl (fst (send_message py tbot m w))"
  by (simp add: send_message_def Let_def)

lemma send_message_not_TelegramError:
  "fst (send_message py tbot m w) = Inl e \<Longrightarrow> cls e \<noteq> TelegramError"
  by (auto simp: send_message_def Let_def not_callable_def interpreter_error_def
           split: option.splits if_splits)

lemma get_api_answer_world:
  "snd (get_api_answer py exchange timestamp w) = w\<lparr>fetched := fetched w @ [timestamp]\<rparr>"
  by (auto simp: get_api_answer_def Let_def split: http.splits option.splits pyval.splits)

lemma send_message_fetchedD:
  "send_message py tbot m w = (r, w') \<Longrightarrow> fetched w' = fetched w"
  using send_message_fetched [of py tbot m w] by simp

lemma get_api_answer_fetchedD:
  "get_api_answer py x ts w = (r, w') \<Longrightarrow> fetched w' = fetched w @ [ts]"
  using get_api_answer_world [of py x ts w] by simp

subsection \<open>One iteration of the loop\<close>

text \<open>
  When the request succeeds, the response passes \<^verbatim>\<open>check_response\<close> with a list that is
  not empty, and the first record formats to \<open>verdict\<close>, the \<^verbatim>\<open>try\<close> block comes down to
  the comparison of \<^verbatim>\<open>current_status\<close> with \<open>verdict\<close>.
\<close>

lemma try_block_verdict:
  assumes "get_api_answer py x ts w = (Inr response, w1)"
    and "check_response response = Inr (homework # rest)"
    and "parse_status py homework = Inr verdict"
  shows "try_block py tbot ts x cs w =
           (if cs \<noteq> verdict
            then (case send_message py tbot verdict w1 of
                    (Inl e, w2) \<Rightarrow> (Some e, verdict, w2)
                  | (Inr _, w2) \<Rightarrow> (None, verdict, w2))
            else (None, cs, logging DEBUG msg_no_new_status w1))"
    and "sent w1 = sent w"
proof -
  show "try_block py tbot ts x cs w =
           (if cs \<noteq> verdict
            then (case send_message py tbot verdict w1 of
                    (Inl e, w2) \<Rightarrow> (Some e, verdict, w2)
                  | (Inr _, w2) \<Rightarrow> (None, verdict, w2))
            else (None, cs, logging DEBUG msg_no_new_status w1))"
    by (simp add: try_block_def assms)
  have "w1 = w\<lparr>fetched := fetched w @ [ts]\<rparr>"
    using get_api_answer_world [of py x ts w] assms(1) by simp
  then show "sent w1 = sent w" by simp
qed

lemma cycle_same_verdict:
  assumes "get_api_answer py x ts w = (Inr response, w1)"
    and "check_response response = Inr (homework # rest)"
    and "parse_status py homework = Inr verdict"
  shows "cycle py tbot ts x verdict w
           = (None, verdict, sleep RETRY_PERIOD (logging DEBUG msg_no_new_status w1))"
  by (simp add: cycle_def try_block_verdict(1) [OF assms])

lemma report_is_no_verdict:
  "parse_status py homework = Inr verdict \<Longrightarrow> msg_failure @ t \<noteq> verdict"
  by (auto simp: parse_status_def msg_failure_def msg_status_changed_def
           split: pyval.splits option.splits)

lemma cycle_new_verdict:
  assumes "get_api_answer py x ts w = (Inr response, w1)"
    and "check_response response = Inr (homework # rest)"
    and "parse_status py homework = Inr verdict"
    and "cs \<noteq> verdict"
    and "cycle py tbot ts x cs w = (r, cs', w')"
  shows "cs' = verdict"
    and "tbot (sent w) verdict = None \<Longrightarrow> r = None \<and> sent w' = sent w @ [verdict]"
    and "tbot (sent w) verdict \<noteq> None \<Longrightarrow>
           \<exists>e. sent w' = sent w @ [verdict, msg_failure @ exn_str py e]"
proof -
  obtain r1 w2 where sm: "send_message py tbot verdict w1 = (r1, w2)"
    by (cases "send_message py tbot verdict w1")
  have s1: "sent w1 = sent w"
    using try_block_verdict(2) [OF assms(1-3)] .
  have s2: "sent w2 = sent w @ [verdict]"
    using send_message_sent [of py tbot verdict w1] sm s1 by simp
  have tb: "try_block py tbot ts x cs w =
      (case r1 of Inl e \<Rightarrow> (Some e, verdict, w2) | Inr _ \<Rightarrow> (None, verdict, w2))"
    using try_block_verdict(1) [OF assms(1-3), of tbot cs] assms(4) sm
    by (simp split: sum.splits)
  show "cs' = verdict"
    using assms(5) tb
    by (auto simp: cycle_def Let_def split: sum.splits if_splits prod.splits)
  show "r = None \<and> sent w' = sent w @ [verdict]" if delivers: "tbot (sent w) verdict = None"
  proof -
    have "r1 = Inr PNone"
      using send_message_delivers [of tbot w1 verdict py] delivers sm s1 by simp
    then have "r = None \<and> w' = sleep RETRY_PERIOD w2"
      using assms(5) tb by (simp add: cycle_def)
    then show ?thesis using s2 by (simp add: sleep_def)
  qed
  show "\<exists>e. sent w' = sent w @ [verdict, msg_failure @ exn_str py e]"
    if fails: "tbot (sent w) verdict \<noteq> None"
  proof -
    obtain e0 where "tbot (sent w1) verdict = Some e0"
      using fails s1 by auto
    then have "isl r1"
      using send_message_raises [of tbot w1 verdict e0 py] sm by simp
    then obtain e where Inl: "r1 = Inl e" by (cases r1) auto
    then have ne: "cls e \<noteq> TelegramError"
      using send_message_not_TelegramError [of py tbot verdict w1 e] sm by simp
    define m where "m = msg_failure @ exn_str py e"
    obtain r3 w3 where sm3: "send_message py tbot m (logging ERROR m w2) = (r3, w3)"
      by (cases "send_message py tbot m (logging ERROR m w2)")
    have s3: "sent w3 = sent w2 @ [m]"
      using send_message_sent [of py tbot m "logging ERROR m w2"] sm3
      by (simp add: logging_def)
    have "w' = w3 \<or> w' = sleep RETRY_PERIOD w3"
      using assms(5) tb Inl ne sm3
      by (auto simp: cycle_def Let_def m_def split: sum.splits)
    then have "sent w' = sent w @ [verdict, m]"
      using s3 s2 by (auto simp: sleep_def)
    then show ?thesis unfolding m_def by blast
  qed
qed

lemma verdicts_differ: "verdict_reviewing \<noteq> verdict_approved"
  by (simp add: verdict_reviewing_def verdict_approved_def)

lemma msg_status_changed_nonempty: "msg_status_changed \<noteq> []"
  by (simp add: msg_status_changed_def)

lemma cycle_answer_record:
  assumes "map_of HOMEWORK_VERDICTS status = Some text"
  shows "cycle py reliable_bot ts (answer [homework_record name status]) cs w =
     (let verdict = msg_status_changed @ name @ [CHR 0x22] @ ''. '' @ text;
          w1 = w\<lparr>fetched := fetched w @ [ts]\<rparr>
      in if cs \<noteq> verdict
         then (None, verdict,
               sleep RETRY_PERIOD (logging DEBUG msg_sent_ok (w1\<lparr>sent := sent w1 @ [verdict]\<rparr>)))
         else (None, cs, sleep RETRY_PERIOD (logging DEBUG msg_no_new_status w1)))"
  using assms
  by (simp add: cycle_def try_block_def get_api_answer_def check_response_def parse_status_def
      homework_record_def send_message_def py_str_def Let_def)

lemma try_block_fetched:
  "try_block py tbot ts x cs w = (r, cs', w') \<Longrightarrow> fetched w' = fetched w @ [ts]"
  by (auto simp: try_block_def logging_def
           split: prod.splits sum.splits list.splits if_splits
           dest!: send_message_fetchedD get_api_answer_fetchedD)

lemma cycle_fetched:
  "cycle py tbot ts x cs w = (r, cs', w') \<Longrightarrow> fetched w' = fetched w @ [ts]"
  by (auto simp: cycle_def logging_def sleep_def Let_def
           split: prod.splits sum.splits option.splits if_splits
           dest!: send_message_fetchedD try_block_fetched)

lemma main_loop_fetched:
  "main_loop py tbot ts xs cs w = (r, cs', w') \<Longrightarrow>
     \<exists>k\<le>length xs. fetched w' = fetched w @ replicate k ts \<and> (r = None \<longrightarrow> k = length xs)"
proof (induction xs arbitrary: cs w)
  case Nil
  then show ?case by simp
next
  case (Cons x xs)
  obtain r1 cs1 w1 where c: "cycle py tbot ts x cs w = (r1, cs1, w1)"
    by (cases "cycle py tbot ts x cs w")
  have f1: "fetched w1 = fetched w @ [ts]"
    using cycle_fetched [OF c] .
  show ?case
  proof (cases r1)
    case (Some e)
    then have "r = Some e" "w' = w1"
      using Cons.prems c by simp_all
    then have "fetched w' = fetched w @ replicate 1 ts \<and> (r = None \<longrightarrow> 1 = length (x # xs))"
      using f1 by simp
    then show ?thesis
      by (intro exI [of _ 1]) simp
  next
    case None
    then have "main_loop py tbot ts xs cs1 w1 = (r, cs', w')"
      using Cons.prems c by simp
    from Cons.IH [OF this] obtain k where
      k: "k \<le> length xs" "fetched w' = fetched w1 @ replicate k ts" "r = None \<longrightarrow> k = length xs"
      by blast
    have "fetched w' = fetched w @ replicate (Suc k) ts"
      using k(2) f1 by (simp add: replicate_app_Cons_same)
    then show ?thesis
      using k(1,3) by (intro exI [of _ "Suc k"]) simp
  qed
qed

lemma check_tokens_fetched:
  "check_tokens py e w = (r, w') \<Longrightarrow> fetched w' = fetched w"
  by (auto simp: check_tokens_def logging_def Let_def split: if_splits)

subsection \<open>The loop notifies on a change of the verdict, and only then\<close>

text \<open>
  C1. Start with \<^verbatim>\<open>current_status\<close> empty and a bot that delivers, and let every response
  hold one record of the same homework. After a first iteration whose record has the
  status \<^verbatim>\<open>reviewing\<close>, the bot has been called once, with the sentence for
  \<^verbatim>\<open>reviewing\<close>; a second iteration with the same status adds no call; a third one, with
  the status \<^verbatim>\<open>approved\<close>, adds one call, with the sentence for \<^verbatim>\<open>approved\<close>. In general,
  in an iteration whose request succeeds and whose first record formats to a verdict,
  \<^verbatim>\<open>send_message\<close> is called if and only if the verdict differs from \<^verbatim>\<open>current_status\<close>
  at the start of the iteration; its first call has the verdict as text, no later call
  of the iteration has, and the first call is the only one when the bot delivers.
\<close>

theorem notifier_invoked_iff_verdict_changed:
  "sent (snd (snd (main_loop py0 reliable_bot ts0
        [answer [homework_record name ''reviewing'']] [] start)))
     = [msg_status_changed @ name @ [CHR 0x22] @ ''. '' @ verdict_reviewing]
   \<and> sent (snd (snd (main_loop py0 reliable_bot ts0
        [answer [homework_record name ''reviewing''],
         answer [homework_record name ''reviewing'']] [] start)))
     = [msg_status_changed @ name @ [CHR 0x22] @ ''. '' @ verdict_reviewing]
   \<and> sent (snd (snd (main_loop py0 reliable_bot ts0
        [answer [homework_record name ''reviewing''],
         answer [homework_record name ''reviewing''],
         answer [homework_record name ''approved'']] [] start)))
     = [msg_status_changed @ name @ [CHR 0x22] @ ''. '' @ verdict_reviewing,
        msg_status_changed @ name @ [CHR 0x22] @ ''. '' @ verdict_approved]
   \<and> (get_api_answer py x ts w = (Inr response, w1)
        \<and> check_response response = Inr (homework # rest)
        \<and> parse_status py homework = Inr verdict
        \<and> cycle py tbot ts x current_status w = (r, current_status', w')
      \<longrightarrow> (sent w' \<noteq> sent w \<longleftrightarrow> verdict \<noteq> current_status)
          \<and> (verdict \<noteq> current_status
               \<longrightarrow> (\<exists>more. sent w' = sent w @ verdict # more \<and> verdict \<notin> set more))
          \<and> (verdict \<noteq> current_status \<and> tbot (sent w) verdict = None
               \<longrightarrow> sent w' = sent w @ [verdict]))"
proof -
  have r: "map_of HOMEWORK_VERDICTS ''reviewing'' = Some verdict_reviewing"
    and a: "map_of HOMEWORK_VERDICTS ''approved'' = Some verdict_approved"
    by (simp_all add: HOMEWORK_VERDICTS_def)
  have scenario: "sent (snd (snd (main_loop py0 reliable_bot ts0
        [answer [homework_record name ''reviewing'']] [] start)))
     = [msg_status_changed @ name @ [CHR 0x22] @ ''. '' @ verdict_reviewing]
   \<and> sent (snd (snd (main_loop py0 reliable_bot ts0
        [answer [homework_record name ''reviewing''],
         answer [homework_record name ''reviewing'']] [] start)))
     = [msg_status_changed @ name @ [CHR 0x22] @ ''. '' @ verdict_reviewing]
   \<and> sent (snd (snd (main_loop py0 reliable_bot ts0
        [answer [homework_record name ''reviewing''],
         answer [homework_record name ''reviewing''],
         answer [homework_record name ''approved'']] [] start)))
     = [msg_status_changed @ name @ [CHR 0x22] @ ''. '' @ verdict_reviewing,
        msg_status_changed @ name @ [CHR 0x22] @ ''. '' @ verdict_approved]"
    by (simp add: cycle_answer_record [OF r] cycle_answer_record [OF a] Let_def
        msg_status_changed_nonempty verdicts_differ start_def sleep_def logging_def)
  have general: "(sent w' \<noteq> sent w \<longleftrightarrow> verdict \<noteq> current_status)
          \<and> (verdict \<noteq> current_status
               \<longrightarrow> (\<exists>more. sent w' = sent w @ verdict # more \<and> verdict \<notin> set more))
          \<and> (verdict \<noteq> current_status \<and> tbot (sent w) verdict = None
               \<longrightarrow> sent w' = sent w @ [verdict])"
    if g: "get_api_answer py x ts w = (Inr response, w1)"
      and c: "check_response response = Inr (homework # rest)"
      and p: "parse_status py homework = Inr verdict"
      and cy: "cycle py tbot ts x current_status w = (r, current_status', w')"
  proof (cases "verdict = current_status")
    case True
    have "w' = sleep RETRY_PERIOD (logging DEBUG msg_no_new_status w1)"
      using cycle_same_verdict [OF g c p, of tbot] cy True by simp
    then have "sent w' = sent w"
      using try_block_verdict(2) [OF g c p] by (simp add: sleep_def logging_def)
    then show ?thesis using True by simp
  next
    case False
    then have ne: "current_status \<noteq> verdict" by simp
    have "\<exists>more. sent w' = sent w @ verdict # more \<and> verdict \<notin> set more"
    proof (cases "tbot (sent w) verdict")
      case None
      then show ?thesis
        using cycle_new_verdict(2) [OF g c p ne cy] by simp
    next
      case (Some e0)
      then obtain e where "sent w' = sent w @ [verdict, msg_failure @ exn_str py e]"
        using cycle_new_verdict(3) [OF g c p ne cy] by auto
      then show ?thesis
        using report_is_no_verdict [OF p, of "exn_str py e"] by simp
    qed
    then show ?thesis
      using False cycle_new_verdict(2) [OF g c p ne cy] by auto
  qed
  show ?thesis
    using scenario general by blast
qed

theorem notifier_invoked_iff_verdict_changed_witness:
  "parse_status sample_python (homework_record ''hw05'' ''reviewing'')
     = Inr (msg_status_changed @ ''hw05'' @ [CHR 0x22] @ ''. '' @ verdict_reviewing)
   \<and> msg_status_changed @ ''hw05'' @ [CHR 0x22] @ ''. '' @ verdict_reviewing \<noteq> []
   \<and> reliable_bot (sent start) (msg_status_changed @ ''hw05'' @ [CHR 0x22] @ ''. '' @ verdict_reviewing) = None
   \<and> sent (snd (snd (cycle sample_python reliable_bot 7
          (answer [homework_record ''hw05'' ''reviewing'']) [] start)))
       = sent start @ [msg_status_changed @ ''hw05'' @ [CHR 0x22] @ ''. '' @ verdict_reviewing]"
  using notifier_invoked_iff_verdict_changed [of sample_python 7 "''hw05''" sample_python
      "answer [homework_record ''hw05'' ''reviewing'']" 7 start
      "PDict [(''homeworks'', PList [homework_record ''hw05'' ''reviewing'']), (''current_date'', PInt 7)]"
      "start\<lparr>fetched := [7]\<rparr>" "homework_record ''hw05'' ''reviewing''" "[]"
      "msg_status_changed @ ''hw05'' @ [CHR 0x22] @ ''. '' @ verdict_reviewing"
      reliable_bot "[]"
      "fst (cycle sample_python reliable_bot 7 (answer [homework_record ''hw05'' ''reviewing'']) [] start)"
      "fst (snd (cycle sample_python reliable_bot 7 (answer [homework_record ''hw05'' ''reviewing'']) [] start))"
      "snd (snd (cycle sample_python reliable_bot 7 (answer [homework_record ''hw05'' ''reviewing'']) [] start))"]
  by (simp add: get_api_answer_def check_response_def parse_status_def homework_record_def
      HOMEWORK_VERDICTS_def py_str_def start_def msg_status_changed_def)

text \<open>
  C9. When the verdict differs from \<^verbatim>\<open>current_status\<close>, line 154 assigns it before line
  155 sends it. If the bot fails to deliver, the exception leaves the \<^verbatim>\<open>try\<close> block with
  \<^verbatim>\<open>current_status\<close> already holding the new verdict, and the iteration ends with it.
  An iteration that starts from there and sees a record with the same verdict calls
  the bot not at all, whatever the bot and the world are by then: it logs that there is
  no new status and sleeps. The notification of that change is never sent again.
\<close>

theorem status_kept_when_delivery_fails:
  assumes "get_api_answer py x ts w = (Inr response, w1)"
    and "check_response response = Inr (homework # rest)"
    and "parse_status py homework = Inr verdict"
    and "current_status \<noteq> verdict"
    and "tbot (sent w) verdict = Some error"
    and "cycle py tbot ts x current_status w = (r, current_status', w')"
    and "get_api_answer py x2 ts2 v = (Inr response2, v1)"
    and "check_response response2 = Inr (homework2 # rest2)"
    and "parse_status py homework2 = Inr verdict"
  shows "fst (try_block py tbot ts x current_status w) \<noteq> None
     \<and> fst (snd (try_block py tbot ts x current_status w)) = verdict
     \<and> current_status' = verdict
     \<and> cycle py tbot2 ts2 x2 current_status' v
         = (None, verdict, sleep RETRY_PERIOD (logging DEBUG msg_no_new_status v1))
     \<and> sent (sleep RETRY_PERIOD (logging DEBUG msg_no_new_status v1)) = sent v"
proof -
  have s1: "sent w1 = sent w"
    using try_block_verdict(2) [OF assms(1-3)] .
  have "isl (fst (send_message py tbot verdict w1))"
    using send_message_raises [of tbot w1 verdict error py] assms(5) s1 by simp
  then obtain e w2 where sm: "send_message py tbot verdict w1 = (Inl e, w2)"
    by (cases "send_message py tbot verdict w1"; cases "fst (send_message py tbot verdict w1)")
      auto
  have tb: "try_block py tbot ts x current_status w = (Some e, verdict, w2)"
    using try_block_verdict(1) [OF assms(1-3), of tbot current_status] assms(4) sm by simp
  have cs': "current_status' = verdict"
    using cycle_new_verdict(1) [OF assms(1-4) assms(6)] .
  have later: "cycle py tbot2 ts2 x2 verdict v
         = (None, verdict, sleep RETRY_PERIOD (logging DEBUG msg_no_new_status v1))"
    using cycle_same_verdict [OF assms(7-9)] .
  have "sent v1 = sent v"
    using try_block_verdict(2) [OF assms(7-9)] .
  then have "sent (sleep RETRY_PERIOD (logging DEBUG msg_no_new_status v1)) = sent v"
    by (simp add: sleep_def logging_def)
  then show ?thesis
    using tb cs' later by simp
qed

theorem status_kept_when_delivery_fails_witness:
  "[] \<noteq> msg_status_changed @ ''hw05'' @ [CHR 0x22] @ ''. '' @ verdict_reviewing
   \<and> flaky_bot (sent start)
         (msg_status_changed @ ''hw05'' @ [CHR 0x22] @ ''. '' @ verdict_reviewing)
       = Some (Exn TelegramError ''Timed out'' None)
   \<and> fst (snd (cycle sample_python flaky_bot 7
         (answer [homework_record ''hw05'' ''reviewing'']) [] start))
       = msg_status_changed @ ''hw05'' @ [CHR 0x22] @ ''. '' @ verdict_reviewing
   \<and> cycle sample_python reliable_bot 8 (answer [homework_record ''hw05'' ''reviewing''])
         (msg_status_changed @ ''hw05'' @ [CHR 0x22] @ ''. '' @ verdict_reviewing) start
       = (None, msg_status_changed @ ''hw05'' @ [CHR 0x22] @ ''. '' @ verdict_reviewing,
          sleep RETRY_PERIOD (logging DEBUG msg_no_new_status (start\<lparr>fetched := [8]\<rparr>)))
   \<and> sent (sleep RETRY_PERIOD (logging DEBUG msg_no_new_status (start\<lparr>fetched := [8]\<rparr>)))
       = sent start"
proof -
  let ?h = "homework_record ''hw05'' ''reviewing''"
  let ?x = "answer [?h]"
  let ?v = "msg_status_changed @ ''hw05'' @ [CHR 0x22] @ ''. '' @ verdict_reviewing"
  let ?c = "cycle sample_python flaky_bot 7 ?x [] start"
  have g1: "get_api_answer sample_python ?x 7 start
      = (Inr (PDict [(''homeworks'', PList [?h]), (''current_date'', PInt 7)]),
         start\<lparr>fetched := [7]\<rparr>)"
    by (simp add: get_api_answer_def start_def)
  have g2: "get_api_answer sample_python ?x 8 start
      = (Inr (PDict [(''homeworks'', PList [?h]), (''current_date'', PInt 8)]),
         start\<lparr>fetched := [8]\<rparr>)"
    by (simp add: get_api_answer_def start_def)
  have c1: "check_response (PDict [(''homeworks'', PList [?h]), (''current_date'', PInt 7)])
      = Inr (?h # [])"
    by (simp add: check_response_def)
  have c2: "check_response (PDict [(''homeworks'', PList [?h]), (''current_date'', PInt 8)])
      = Inr (?h # [])"
    by (simp add: check_response_def)
  have p: "parse_status sample_python ?h = Inr ?v"
    by (simp add: parse_status_def homework_record_def HOMEWORK_VERDICTS_def py_str_def)
  have ne: "[] \<noteq> ?v"
    by (simp add: msg_status_changed_def)
  have fails: "flaky_bot (sent start) ?v = Some (Exn TelegramError ''Timed out'' None)"
    by (simp add: start_def)
  have cy: "?c = (fst ?c, fst (snd ?c), snd (snd ?c))"
    by simp
  note kept = status_kept_when_delivery_fails [OF g1 c1 p ne fails cy g2 c2 p, of reliable_bot]
  from kept have new: "fst (snd ?c) = ?v"
    by blast
  from kept have "cycle sample_python reliable_bot 8 ?x (fst (snd ?c)) start
      = (None, ?v, sleep RETRY_PERIOD (logging DEBUG msg_no_new_status (start\<lparr>fetched := [8]\<rparr>)))"
    by blast
  then have later: "cycle sample_python reliable_bot 8 ?x ?v start
      = (None, ?v, sleep RETRY_PERIOD (logging DEBUG msg_no_new_status (start\<lparr>fetched := [8]\<rparr>)))"
    by (simp only: new)
  from kept have quiet:
    "sent (sleep RETRY_PERIOD (logging DEBUG msg_no_new_status (start\<lparr>fetched := [8]\<rparr>)))
       = sent start"
    by blast
  show ?thesis
    using ne fails new later quiet by blast
qed

text \<open>
  C2 asks that a delivery failure neither end the loop nor cause a second attempt in the
  same iteration. In the code it does both. Since \<^verbatim>\<open>send_message\<close> turns the bot's
  \<^verbatim>\<open>TelegramError\<close> into a \<^verbatim>\<open>TypeError\<close>, the clause \<^verbatim>\<open>except telegram.error.TelegramError\<close>
  of \<^verbatim>\<open>main\<close> is passed over and the clause \<^verbatim>\<open>except Exception\<close> sends a second message,
  the report of the failure. With a bot that never delivers, the second attempt fails
  as well, its \<^verbatim>\<open>TypeError\<close> leaves \<^verbatim>\<open>main\<close>, and the loop is over before it sleeps. With a
  bot that fails once, the loop goes on, after two attempts in one iteration.
\<close>

theorem second_attempt_after_delivery_failure:
  "cycle sample_python failing_bot 7 (answer [homework_record ''hw05'' ''reviewing'']) [] start
     = (Some (Exn TypeError ''<fault>'' (Some (Exn TelegramError ''Timed out'' None))),
        msg_status_changed @ ''hw05'' @ [CHR 0x22] @ ''. '' @ verdict_reviewing,
        \<lparr>log = [(ERROR, msg_send_failed @ ''Timed out''),
                (ERROR, msg_failure @ ''<fault>''),
                (ERROR, msg_send_failed @ ''Timed out'')],
         sent = [msg_status_changed @ ''hw05'' @ [CHR 0x22] @ ''. '' @ verdict_reviewing,
                 msg_failure @ ''<fault>''],
         fetched = [7], slept = []\<rparr>)
   \<and> cycle sample_python flaky_bot 7 (answer [homework_record ''hw05'' ''reviewing'']) [] start
     = (None,
        msg_status_changed @ ''hw05'' @ [CHR 0x22] @ ''. '' @ verdict_reviewing,
        \<lparr>log = [(ERROR, msg_send_failed @ ''Timed out''),
                (ERROR, msg_failure @ ''<fault>''),
                (DEBUG, msg_sent_ok)],
         sent = [msg_status_changed @ ''hw05'' @ [CHR 0x22] @ ''. '' @ verdict_reviewing,
                 msg_failure @ ''<fault>''],
         fetched = [7], slept = [600]\<rparr>)"
  by (simp add: cycle_def try_block_def get_api_answer_def check_response_def parse_status_def
      homework_record_def HOMEWORK_VERDICTS_def py_str_def send_message_def not_callable_def
      interpreter_error_def exn_str_def sample_python_def logging_def sleep_def start_def
      RETRY_PERIOD_def msg_status_changed_def Let_def)

subsection \<open>The cursor\<close>

text \<open>
  C8. \<^verbatim>\<open>main\<close> computes the cursor once, before the loop: the Unix time of the local
  midnight of the day 30 days before the day on which the process starts. Every
  request of every iteration carries this value as \<^verbatim>\<open>from_date\<close>; the cursor never
  moves. As long as the loop runs it issues one request an iteration.
\<close>

theorem cursor_fixed:
  "main py e bot_init tbot today mktime exchanges = (r, cs, w) \<Longrightarrow>
     (\<forall>t \<in> set (fetched w). t = mktime (today - 30))
     \<and> (r = None \<longrightarrow> fetched w = replicate (length exchanges) (mktime (today - 30)))"
proof -
  assume m: "main py e bot_init tbot today mktime exchanges = (r, cs, w)"
  obtain r0 w0 where ct: "check_tokens py e start = (r0, w0)"
    by (cases "check_tokens py e start")
  have f0: "fetched w0 = []"
    using check_tokens_fetched [OF ct] by (simp add: start_def)
  show ?thesis
  proof (cases "isl r0 \<or> bot_init \<noteq> None")
    case True
    then have "r \<noteq> None \<and> fetched w = []"
      using m ct f0
      by (auto simp: main_def logging_def split: sum.splits option.splits)
    then show ?thesis by auto
  next
    case False
    then have "main_loop py tbot (mktime (today - 30)) exchanges [] w0 = (r, cs, w)"
      using m ct by (auto simp: main_def split: sum.splits option.splits)
    from main_loop_fetched [OF this] obtain k where
      "k \<le> length exchanges" "fetched w = fetched w0 @ replicate k (mktime (today - 30))"
      "r = None \<longrightarrow> k = length exchanges"
      by blast
    then show ?thesis using f0 by auto
  qed
qed

theorem cursor_fixed_witness:
  "fst (main sample_python sample_env None reliable_bot 20000 utc_midnight
          [answer [], answer []]) = None
   \<and> fetched (snd (snd (main sample_python sample_env None reliable_bot 20000 utc_midnight
          [answer [], answer []]))) = [1725408000, 1725408000]"
  using cursor_fixed [of sample_python sample_env None reliable_bot 20000 utc_midnight
      "[answer [], answer []]"
      "fst (main sample_python sample_env None reliable_bot 20000 utc_midnight [answer [], answer []])"
      "fst (snd (main sample_python sample_env None reliable_bot 20000 utc_midnight [answer [], answer []]))"
      "snd (snd (main sample_python sample_env None reliable_bot 20000 utc_midnight [answer [], answer []]))"]
  by (simp add: main_def check_tokens_def sample_env_def truthy_def cycle_def try_block_def
      get_api_answer_def check_response_def)

end
